theory Spec2Isabelle
  imports Main
begin

section \<open>Data model of the migration\<close>

text \<open>
  Text is a \<open>string\<close>: a list of 8-bit characters, read as the UTF-16 code units
  U+0000 to U+00FF of a JavaScript or SQL string. Text outside Latin-1 is outside the model.

  The schema of the SQL migration. A UUID is an opaque identifier with equality only and
  a timestamp is a point on a discrete clock, so both are natural numbers. A nullable
  column is an \<open>option\<close>; a column declared \<open>NOT NULL\<close> is not. A table is the list of its
  rows. The identity of the requester, \<open>auth.uid()\<close>, is \<open>None\<close> for an anonymous request.
\<close>

type_synonym uuid = nat
type_synonym timestamptz = nat

datatype app_role = role_patient | role_doctor

record profiles_row =
  p_id :: uuid
  p_full_name :: string
  p_role :: app_role
  p_created_at :: timestamptz
  p_updated_at :: timestamptz

record user_roles_row =
  ur_id :: uuid
  ur_user_id :: uuid
  ur_role :: app_role

record symptoms_row =
  s_id :: uuid
  s_patient_id :: uuid
  s_title :: string
  s_description :: "string option"
  s_photo_url :: "string option"
  s_severity :: "string option"
  s_affected_area :: "string option"
  s_duration :: "string option"
  s_created_at :: timestamptz
  s_updated_at :: timestamptz

record doctor_notes_row =
  n_id :: uuid
  n_symptom_id :: uuid
  n_doctor_id :: uuid
  n_note :: string
  n_progress_status :: "string option"
  n_created_at :: timestamptz

record messages_row =
  m_id :: uuid
  m_sender_id :: uuid
  m_receiver_id :: uuid
  m_content :: string
  m_attachment_url :: "string option"
  m_symptom_reference :: "uuid option"
  m_read :: "bool option"
  m_created_at :: timestamptz

record assignments_row =
  a_id :: uuid
  a_patient_id :: uuid
  a_doctor_id :: uuid
  a_assigned_at :: timestamptz

record database =
  auth_users :: "uuid list"
  profiles :: "profiles_row list"
  user_roles :: "user_roles_row list"
  symptoms :: "symptoms_row list"
  doctor_notes :: "doctor_notes_row list"
  messages :: "messages_row list"
  patient_doctor_assignments :: "assignments_row list"

text \<open>
  A statement that the database refuses. Row level security is enabled on every table of
  the migration, so a row that no policy of the command admits is refused.
\<close>

datatype db_error =
  RlsViolation
  | CheckViolation
  | UniqueViolation
  | ForeignKeyViolation

section \<open>The role check and the row-level policies\<close>

text \<open>
  \<open>auth.uid() = col\<close> in a policy: a comparison with NULL is not true, so an anonymous
  requester satisfies no such test.
\<close>

definition uid_is :: "uuid option \<Rightarrow> uuid \<Rightarrow> bool" where
  "uid_is uid x = (uid = Some x)"

text \<open>
  \<open>has_role(_user_id, _role)\<close>: \<open>SELECT EXISTS (SELECT 1 FROM user_roles WHERE user_id =
  _user_id AND role = _role)\<close>. It is SECURITY DEFINER, so it reads the whole table whatever
  the requester may select.
\<close>

definition has_role :: "database \<Rightarrow> uuid option \<Rightarrow> app_role \<Rightarrow> bool" where
  "has_role db user_id r =
     (filter (\<lambda>row. uid_is user_id (ur_user_id row) \<and> ur_role row = r) (user_roles db) \<noteq> [])"

text \<open>Policies on \<open>symptoms\<close>. Several policies of one command are combined with OR.\<close>

definition patients_can_view_their_own_symptoms :: "uuid option \<Rightarrow> symptoms_row \<Rightarrow> bool" where
  "patients_can_view_their_own_symptoms uid s = uid_is uid (s_patient_id s)"

definition doctors_can_view_assigned_patients_symptoms ::
  "database \<Rightarrow> uuid option \<Rightarrow> symptoms_row \<Rightarrow> bool" where
  "doctors_can_view_assigned_patients_symptoms db uid s =
     (has_role db uid role_doctor \<and>
      filter (\<lambda>a. a_patient_id a = s_patient_id s \<and> uid_is uid (a_doctor_id a))
        (patient_doctor_assignments db) \<noteq> [])"

definition symptoms_select :: "database \<Rightarrow> uuid option \<Rightarrow> symptoms_row \<Rightarrow> bool" where
  "symptoms_select db uid s =
     (patients_can_view_their_own_symptoms uid s \<or>
      doctors_can_view_assigned_patients_symptoms db uid s)"

definition patients_can_insert_their_own_symptoms :: "uuid option \<Rightarrow> symptoms_row \<Rightarrow> bool" where
  "patients_can_insert_their_own_symptoms uid s = uid_is uid (s_patient_id s)"

definition patients_can_update_their_own_symptoms :: "uuid option \<Rightarrow> symptoms_row \<Rightarrow> bool" where
  "patients_can_update_their_own_symptoms uid s = uid_is uid (s_patient_id s)"

definition patients_can_delete_their_own_symptoms :: "uuid option \<Rightarrow> symptoms_row \<Rightarrow> bool" where
  "patients_can_delete_their_own_symptoms uid s = uid_is uid (s_patient_id s)"

text \<open>\<open>CHECK (severity IN ('mild', 'moderate', 'severe'))\<close>; NULL passes a CHECK.\<close>

definition severity_check :: "string option \<Rightarrow> bool" where
  "severity_check sv =
     (case sv of None \<Rightarrow> True
      | Some v \<Rightarrow> v = ''mild'' \<or> v = ''moderate'' \<or> v = ''severe'')"

text \<open>
  \<open>INSERT INTO symptoms\<close> of one row, defaults filled in. The database tests the policy's
  WITH CHECK first, then the CHECK constraint, the primary key and the foreign key. The
  insert policy asks for no role.
\<close>

definition insert_symptom :: "database \<Rightarrow> uuid option \<Rightarrow> symptoms_row \<Rightarrow> db_error + database" where
  "insert_symptom db uid s =
     (if \<not> patients_can_insert_their_own_symptoms uid s then Inl RlsViolation
      else if \<not> severity_check (s_severity s) then Inl CheckViolation
      else if s_id s \<in> set (map s_id (symptoms db)) then Inl UniqueViolation
      else if s_patient_id s \<notin> set (auth_users db) then Inl ForeignKeyViolation
      else Inr (db\<lparr>symptoms := symptoms db @ [s]\<rparr>))"

text \<open>\<open>SELECT * FROM symptoms\<close> as seen by the requester: the rows the select policies admit.\<close>

definition select_symptoms :: "database \<Rightarrow> uuid option \<Rightarrow> symptoms_row list" where
  "select_symptoms db uid = filter (symptoms_select db uid) (symptoms db)"

text \<open>
  \<open>DELETE FROM patient_doctor_assignments WHERE patient_id = p AND doctor_id = d\<close>, run with
  the privileges of the table's owner: the migration gives this table no delete policy, so
  no client role removes a row, and a row goes by this statement or by the cascade from
  \<open>auth.users\<close>.
\<close>

definition remove_assignment :: "database \<Rightarrow> uuid \<Rightarrow> uuid \<Rightarrow> database" where
  "remove_assignment db p d =
     db\<lparr>patient_doctor_assignments :=
          filter (\<lambda>a. \<not> (a_patient_id a = p \<and> a_doctor_id a = d))
            (patient_doctor_assignments db)\<rparr>"


section \<open>Doctor notes\<close>

definition doctors_can_insert_notes :: "database \<Rightarrow> uuid option \<Rightarrow> doctor_notes_row \<Rightarrow> bool" where
  "doctors_can_insert_notes db uid n =
     (has_role db uid role_doctor \<and> uid_is uid (n_doctor_id n))"

text \<open>\<open>CHECK (progress_status IN ('improving', 'stable', 'worsening'))\<close>; NULL passes a CHECK.\<close>

definition progress_status_check :: "string option \<Rightarrow> bool" where
  "progress_status_check st =
     (case st of None \<Rightarrow> True
      | Some v \<Rightarrow> v = ''improving'' \<or> v = ''stable'' \<or> v = ''worsening'')"

text \<open>
  \<open>INSERT INTO doctor_notes\<close> of one row, defaults filled in. The database tests the
  policy's WITH CHECK first, then the CHECK constraint, the primary key and the foreign keys.
\<close>

definition insert_doctor_note ::
  "database \<Rightarrow> uuid option \<Rightarrow> doctor_notes_row \<Rightarrow> db_error + database" where
  "insert_doctor_note db uid n =
     (if \<not> doctors_can_insert_notes db uid n then Inl RlsViolation
      else if \<not> progress_status_check (n_progress_status n) then Inl CheckViolation
      else if n_id n \<in> set (map n_id (doctor_notes db)) then Inl UniqueViolation
      else if n_symptom_id n \<notin> set (map s_id (symptoms db)) \<or> n_doctor_id n \<notin> set (auth_users db)
        then Inl ForeignKeyViolation
      else Inr (db\<lparr>doctor_notes := doctor_notes db @ [n]\<rparr>))"

section \<open>Messages\<close>

definition users_can_view_their_own_messages :: "uuid option \<Rightarrow> messages_row \<Rightarrow> bool" where
  "users_can_view_their_own_messages uid m =
     (uid_is uid (m_sender_id m) \<or> uid_is uid (m_receiver_id m))"

definition users_can_send_messages :: "uuid option \<Rightarrow> messages_row \<Rightarrow> bool" where
  "users_can_send_messages uid m = uid_is uid (m_sender_id m)"

definition users_can_update_their_received_messages :: "uuid option \<Rightarrow> messages_row \<Rightarrow> bool" where
  "users_can_update_their_received_messages uid m = uid_is uid (m_receiver_id m)"

definition select_messages :: "database \<Rightarrow> uuid option \<Rightarrow> messages_row list" where
  "select_messages db uid = filter (users_can_view_their_own_messages uid) (messages db)"

text \<open>The foreign keys of one row of \<open>messages\<close>.\<close>

definition messages_foreign_keys :: "database \<Rightarrow> messages_row \<Rightarrow> bool" where
  "messages_foreign_keys db m =
     (m_sender_id m \<in> set (auth_users db) \<and>
      m_receiver_id m \<in> set (auth_users db) \<and>
      (case m_symptom_reference m of None \<Rightarrow> True
       | Some s \<Rightarrow> s \<in> set (map s_id (symptoms db))))"

text \<open>
  \<open>INSERT INTO messages\<close> of one row, defaults filled in: the policy's WITH CHECK, then
  the primary key, then the foreign keys.
\<close>

definition insert_message ::
  "database \<Rightarrow> uuid option \<Rightarrow> messages_row \<Rightarrow> db_error + database" where
  "insert_message db uid m =
     (if \<not> users_can_send_messages uid m then Inl RlsViolation
      else if m_id m \<in> set (map m_id (messages db)) then Inl UniqueViolation
      else if \<not> messages_foreign_keys db m then Inl ForeignKeyViolation
      else Inr (db\<lparr>messages := messages db @ [m]\<rparr>))"

text \<open>
  \<open>UPDATE messages SET ... WHERE ...\<close>: \<open>wh\<close> is the WHERE clause and \<open>f\<close> the assignment of
  the SET clause. The statement rewrites the rows that its WHERE clause selects, that the
  requester may select and that the update policy's USING admits; any other row is passed
  over in silence.
\<close>

definition update_target :: "uuid option \<Rightarrow> (messages_row \<Rightarrow> bool) \<Rightarrow> messages_row \<Rightarrow> bool" where
  "update_target uid wh m =
     (wh m \<and> users_can_view_their_own_messages uid m \<and>
      users_can_update_their_received_messages uid m)"

text \<open>
  The rows are rewritten one after the other, in the order of the table; \<open>done\<close> holds the
  rows already gone through, as they now are. The update policy has no WITH CHECK, so its
  USING expression is tested on the new row as well, and a new row that fails it aborts
  the statement. The primary key is not deferrable: the key of the new row is then tested
  against the table as it stands at that moment, the rows gone through in their new form
  and the rows still to come in their old one.
\<close>

fun update_rows ::
  "uuid option \<Rightarrow> (messages_row \<Rightarrow> bool) \<Rightarrow> (messages_row \<Rightarrow> messages_row) \<Rightarrow>
   messages_row list \<Rightarrow> messages_row list \<Rightarrow> db_error + messages_row list" where
  "update_rows uid wh f done [] = Inr done"
| "update_rows uid wh f done (m # ms) =
     (if update_target uid wh m
      then (if \<not> users_can_update_their_received_messages uid (f m) then Inl RlsViolation
            else if m_id (f m) \<in> set (map m_id (done @ ms)) then Inl UniqueViolation
            else update_rows uid wh f (done @ [f m]) ms)
      else update_rows uid wh f (done @ [m]) ms)"

text \<open>
  The foreign keys are tested when every row has been rewritten, on the rewritten rows.
\<close>

definition update_messages ::
  "database \<Rightarrow> uuid option \<Rightarrow> (messages_row \<Rightarrow> bool) \<Rightarrow> (messages_row \<Rightarrow> messages_row) \<Rightarrow>
   db_error + database" where
  "update_messages db uid wh f =
     (case update_rows uid wh f [] (messages db) of
        Inl e \<Rightarrow> Inl e
      | Inr ms' \<Rightarrow>
          (if \<not> list_all (messages_foreign_keys db)
                   (map f (filter (update_target uid wh) (messages db)))
           then Inl ForeignKeyViolation
           else Inr (db\<lparr>messages := ms'\<rparr>)))"

text \<open>
  Clauses of the statements a client sends: \<open>.eq('id', i)\<close> as WHERE clause, and the SET
  clauses of \<open>.update({content: c})\<close>, of \<open>.update({read: b})\<close>, of an update that sets
  every column but the key and the receiver, and of one that sets the key.
\<close>

definition where_id :: "uuid \<Rightarrow> messages_row \<Rightarrow> bool" where
  "where_id i m = (m_id m = i)"

definition set_content :: "string \<Rightarrow> messages_row \<Rightarrow> messages_row" where
  "set_content c m = m\<lparr>m_content := c\<rparr>"

definition set_read :: "bool \<Rightarrow> messages_row \<Rightarrow> messages_row" where
  "set_read b m = m\<lparr>m_read := Some b\<rparr>"

definition set_other_columns ::
  "uuid \<Rightarrow> string \<Rightarrow> string option \<Rightarrow> uuid option \<Rightarrow> bool option \<Rightarrow> timestamptz \<Rightarrow>
   messages_row \<Rightarrow> messages_row" where
  "set_other_columns sender content attachment reference rd created m =
     m\<lparr>m_sender_id := sender, m_content := content, m_attachment_url := attachment,
       m_symptom_reference := reference, m_read := rd, m_created_at := created\<rparr>"

definition set_id :: "uuid \<Rightarrow> messages_row \<Rightarrow> messages_row" where
  "set_id i m = m\<lparr>m_id := i\<rparr>"

section \<open>Signup\<close>

definition users_can_insert_their_own_profile :: "uuid option \<Rightarrow> profiles_row \<Rightarrow> bool" where
  "users_can_insert_their_own_profile uid p = uid_is uid (p_id p)"

definition insert_profile :: "database \<Rightarrow> uuid option \<Rightarrow> profiles_row \<Rightarrow> db_error + database" where
  "insert_profile db uid p =
     (if \<not> users_can_insert_their_own_profile uid p then Inl RlsViolation
      else if p_id p \<in> set (map p_id (profiles db)) then Inl UniqueViolation
      else if p_id p \<notin> set (auth_users db) then Inl ForeignKeyViolation
      else Inr (db\<lparr>profiles := profiles db @ [p]\<rparr>))"

text \<open>
  The migration enables row level security on \<open>user_roles\<close> and creates one policy for it,
  "Users can view their own roles", FOR SELECT. No policy admits an insert, so the
  database refuses every row a client role inserts.
\<close>

definition user_roles_insert :: "uuid option \<Rightarrow> user_roles_row \<Rightarrow> bool" where
  "user_roles_insert uid r = False"

definition insert_user_role ::
  "database \<Rightarrow> uuid option \<Rightarrow> user_roles_row \<Rightarrow> db_error + database" where
  "insert_user_role db uid r =
     (if \<not> user_roles_insert uid r then Inl RlsViolation
      else if ur_id r \<in> set (map ur_id (user_roles db)) \<or>
              (ur_user_id r, ur_role r) \<in> set (map (\<lambda>x. (ur_user_id x, ur_role x)) (user_roles db))
        then Inl UniqueViolation
      else if ur_user_id r \<notin> set (auth_users db) then Inl ForeignKeyViolation
      else Inr (db\<lparr>user_roles := user_roles db @ [r]\<rparr>))"

text \<open>
  The signup branch of \<open>handleAuth\<close> in Auth.tsx once \<open>signUp\<close> has returned the new user:
  two inserts, awaited one after the other. Neither result is inspected: an insert the
  database refuses leaves the tables as they were and the function goes on to announce
  "Account created!". \<open>new_id\<close> is the value \<open>gen_random_uuid()\<close> gives the role row and
  \<open>now\<close> the value of \<open>NOW()\<close>.
\<close>

definition handleAuth_signup ::
  "database \<Rightarrow> uuid \<Rightarrow> string \<Rightarrow> app_role \<Rightarrow> uuid \<Rightarrow> timestamptz \<Rightarrow> database" where
  "handleAuth_signup db user fullName role new_id now =
     (let db1 = (case insert_profile db (Some user)
                        \<lparr>p_id = user, p_full_name = fullName, p_role = role,
                         p_created_at = now, p_updated_at = now\<rparr> of
                   Inl e \<Rightarrow> db | Inr d \<Rightarrow> d);
          db2 = (case insert_user_role db1 (Some user)
                        \<lparr>ur_id = new_id, ur_user_id = user, ur_role = role\<rparr> of
                   Inl e \<Rightarrow> db1 | Inr d \<Rightarrow> d)
      in db2)"

section \<open>String operations of the views\<close>

text \<open>
  \<open>String.prototype.trim\<close> removes white space and line terminators from both ends. Of
  the code units below U+0100 these are TAB, LF, VT, FF, CR, SPACE and NBSP.
\<close>

definition is_white_space :: "char \<Rightarrow> bool" where
  "is_white_space c = (of_char c \<in> {9, 10, 11, 12, 13, 32, 160 :: nat})"

definition trim :: "string \<Rightarrow> string" where
  "trim s = rev (dropWhile is_white_space (rev (dropWhile is_white_space s)))"

text \<open>
  \<open>String.prototype.toLowerCase\<close>: below U+0100 the letters with a lower-case form are
  A to Z and U+00C0 to U+00DE without the multiplication sign U+00D7, and the lower-case
  form is 32 further on. The result has the length of the argument.
\<close>

definition toLowerCase_unit :: "char \<Rightarrow> char" where
  "toLowerCase_unit c =
     (let n = (of_char c :: nat)
      in if (65 \<le> n \<and> n \<le> 90) \<or> (192 \<le> n \<and> n \<le> 222 \<and> n \<noteq> 215)
         then char_of (n + 32) else c)"

definition toLowerCase :: "string \<Rightarrow> string" where
  "toLowerCase s = map toLowerCase_unit s"

text \<open>
  \<open>s.includes(t)\<close>: there is a position \<open>k\<close> with \<open>k + length t \<le> length s\<close> at which the code
  units of \<open>s\<close> are those of \<open>t\<close>.
\<close>

definition includes_js :: "string \<Rightarrow> string \<Rightarrow> bool" where
  "includes_js s t =
     (length t \<le> length s \<and>
      list_ex (\<lambda>k. take (length t) (drop k s) = t) [0 ..< length s - length t + 1])"

section \<open>The symptom finder\<close>

record SymptomInfo =
  si_name :: string
  si_description :: string
  si_keywords :: "string list"

definition symptomDatabase :: "SymptomInfo list" where
  "symptomDatabase =
     [\<lparr>si_name = ''Rash'',
       si_description = ''A change in skin appearance or texture, often with redness, bumps, or irritation.'',
       si_keywords = [''itchy'', ''red'', ''bumps'', ''skin'', ''irritation'', ''hives'']\<rparr>,
      \<lparr>si_name = ''Fever'',
       si_description = ''Elevated body temperature, usually above 100.4'' @ [CHR 0xB0] @ ''F (38'' @
                     [CHR 0xB0] @ ''C), often indicating infection.'',
       si_keywords = [''temperature'', ''hot'', ''chills'', ''sweating'', ''infection'']\<rparr>,
      \<lparr>si_name = ''Headache'',
       si_description = ''Pain in the head or upper neck, ranging from mild to severe.'',
       si_keywords = [''pain'', ''head'', ''migraine'', ''pressure'', ''throbbing'']\<rparr>,
      \<lparr>si_name = ''Cough'',
       si_description = ''A reflex action to clear airways of mucus, irritants, or foreign particles.'',
       si_keywords = [''throat'', ''phlegm'', ''dry'', ''productive'', ''wheeze'']\<rparr>,
      \<lparr>si_name = ''Fatigue'',
       si_description = ''Extreme tiredness or lack of energy that doesn't improve with rest.'',
       si_keywords = [''tired'', ''exhausted'', ''weak'', ''energy'', ''sleepy'']\<rparr>,
      \<lparr>si_name = ''Nausea'',
       si_description = ''An uncomfortable sensation of wanting to vomit.'',
       si_keywords = [''sick'', ''stomach'', ''queasy'', ''vomit'', ''upset'']\<rparr>,
      \<lparr>si_name = ''Swelling'',
       si_description = ''Enlargement or puffiness in a body part due to fluid accumulation.'',
       si_keywords = [''puffy'', ''inflammation'', ''edema'', ''enlarged'', ''bloated'']\<rparr>,
      \<lparr>si_name = ''Joint Pain'',
       si_description = ''Discomfort, aches, or soreness in body joints.'',
       si_keywords = [''arthritis'', ''stiff'', ''ache'', ''knee'', ''elbow'', ''shoulder'']\<rparr>]"

record finder_state =
  searchTerm :: string
  filteredSymptoms :: "SymptomInfo list"

definition handleSearch :: "string \<Rightarrow> finder_state \<Rightarrow> finder_state" where
  "handleSearch term st =
     (let st1 = st\<lparr>searchTerm := term\<rparr>
      in if trim term = [] then st1\<lparr>filteredSymptoms := symptomDatabase\<rparr>
         else
           let lowerTerm = toLowerCase term;
               filtered = filter (\<lambda>symptom.
                   includes_js (toLowerCase (si_name symptom)) lowerTerm \<or>
                   includes_js (toLowerCase (si_description symptom)) lowerTerm \<or>
                   list_ex (\<lambda>keyword. includes_js (toLowerCase keyword) lowerTerm) (si_keywords symptom))
                 symptomDatabase
           in st1\<lparr>filteredSymptoms := filtered\<rparr>)"

text \<open>
  What the specification calls a case-insensitive substring: some stretch of \<open>s\<close> agrees
  with \<open>q\<close> unit by unit once the case of each is set aside.
\<close>

definition same_ignoring_case :: "string \<Rightarrow> string \<Rightarrow> bool" where
  "same_ignoring_case a b = list_all2 (\<lambda>x y. toLowerCase_unit x = toLowerCase_unit y) a b"

definition case_insensitive_substring :: "string \<Rightarrow> string \<Rightarrow> bool" where
  "case_insensitive_substring q s = (\<exists>pre mid post. s = pre @ mid @ post \<and> same_ignoring_case mid q)"

section \<open>The chat view\<close>

record Doctor =
  d_id :: uuid
  d_full_name :: string

record chat_state =
  chat_messages :: "messages_row list"
  newMessage :: string
  selectedDoctor :: "Doctor option"

text \<open>
  The callback \<open>subscribeToMessages\<close> registers for INSERT events on \<open>messages\<close>: \<open>user\<close> and
  \<open>selectedDoctor\<close> are the values the callback closed over, \<open>prev\<close> the list the state
  setter hands it and \<open>newMsg\<close> the row of the event. \<open>user?.id\<close> and
  \<open>selectedDoctor?.id\<close> are undefined when the object is null, and no row's identifier is
  strictly equal to undefined.
\<close>

definition on_insert ::
  "uuid option \<Rightarrow> Doctor option \<Rightarrow> messages_row list \<Rightarrow> messages_row \<Rightarrow> messages_row list" where
  "on_insert user sel prev newMsg =
     (if (Some (m_sender_id newMsg) = user \<and> Some (m_receiver_id newMsg) = map_option d_id sel) \<or>
         (Some (m_sender_id newMsg) = map_option d_id sel \<and> Some (m_receiver_id newMsg) = user)
      then prev @ [newMsg] else prev)"

text \<open>The events of the feed, handed to the callback one after the other.\<close>

definition deliver ::
  "uuid option \<Rightarrow> Doctor option \<Rightarrow> messages_row list \<Rightarrow> messages_row list \<Rightarrow> messages_row list" where
  "deliver user sel prev events = foldl (on_insert user sel) prev events"

text \<open>
  \<open>handleSend\<close>: the requester of the insert is the signed-in user of the view. The row
  names \<open>user?.id\<close> as sender; without a user the key is absent, the column is NULL and the
  insert policy refuses the row. \<open>new_id\<close> and \<open>now\<close> are the column defaults
  \<open>gen_random_uuid()\<close> and \<open>NOW()\<close>; \<open>read\<close> defaults to FALSE and the other columns
  to NULL. The third component of the result is the error the toast shows, if any.
\<close>

definition handleSend ::
  "uuid option \<Rightarrow> uuid \<Rightarrow> timestamptz \<Rightarrow> chat_state \<Rightarrow> database \<Rightarrow>
   chat_state \<times> database \<times> db_error option" where
  "handleSend user new_id now st db =
     (if trim (newMessage st) = [] then (st, db, None)
      else case selectedDoctor st of
        None \<Rightarrow> (st, db, None)
      | Some doc \<Rightarrow>
          (case (case user of
                   None \<Rightarrow> Inl RlsViolation
                 | Some u \<Rightarrow>
                     insert_message db user
                       \<lparr>m_id = new_id, m_sender_id = u, m_receiver_id = d_id doc,
                        m_content = trim (newMessage st), m_attachment_url = None,
                        m_symptom_reference = None, m_read = Some False,
                        m_created_at = now\<rparr>) of
             Inl e \<Rightarrow> (st, db, Some e)
           | Inr db' \<Rightarrow> (st\<lparr>newMessage := []\<rparr>, db', None)))"

section \<open>Example state\<close>

definition example_db :: database where
  "example_db =
     \<lparr>auth_users = [1, 2, 3],
      profiles = [],
      user_roles = [\<lparr>ur_id = 10, ur_user_id = 1, ur_role = role_patient\<rparr>,
                    \<lparr>ur_id = 11, ur_user_id = 2, ur_role = role_doctor\<rparr>],
      symptoms = [\<lparr>s_id = 100, s_patient_id = 1, s_title = ''Rash'', s_description = None,
                   s_photo_url = None, s_severity = Some ''mild'', s_affected_area = Some ''arm'',
                   s_duration = None, s_created_at = 5, s_updated_at = 5\<rparr>],
      doctor_notes = [],
      messages = [\<lparr>m_id = 200, m_sender_id = 1, m_receiver_id = 2, m_content = ''hello'',
                   m_attachment_url = None, m_symptom_reference = None, m_read = Some False,
                   m_created_at = 6\<rparr>],
      patient_doctor_assignments = [\<lparr>a_id = 300, a_patient_id = 1, a_doctor_id = 2, a_assigned_at = 4\<rparr>]\<rparr>"

text \<open>The doctor of the example records a symptom of the doctor's own.\<close>

definition doctors_own_symptom :: symptoms_row where
  "doctors_own_symptom =
     \<lparr>s_id = 101, s_patient_id = 2, s_title = ''Cough'', s_description = None,
      s_photo_url = None, s_severity = Some ''mild'', s_affected_area = None,
      s_duration = None, s_created_at = 6, s_updated_at = 6\<rparr>"

definition doctor_owner_db :: database where
  "doctor_owner_db = example_db\<lparr>symptoms := symptoms example_db @ [doctors_own_symptom]\<rparr>"

definition example_note :: doctor_notes_row where
  "example_note = \<lparr>n_id = 400, n_symptom_id = 100, n_doctor_id = 2, n_note = ''better'',
                    n_progress_status = Some ''stable'', n_created_at = 7\<rparr>"

text \<open>A chat view of patient 1 with doctor 2, a reply of the doctor and a message of a third user.\<close>

definition example_doctor :: Doctor where
  "example_doctor = \<lparr>d_id = 2, d_full_name = ''Dr Lee''\<rparr>"

definition example_reply :: messages_row where
  "example_reply = \<lparr>m_id = 201, m_sender_id = 2, m_receiver_id = 1, m_content = ''hi'',
                     m_attachment_url = None, m_symptom_reference = None, m_read = Some False,
                     m_created_at = 8\<rparr>"

definition example_other :: messages_row where
  "example_other = \<lparr>m_id = 202, m_sender_id = 3, m_receiver_id = 1, m_content = ''ping'',
                     m_attachment_url = None, m_symptom_reference = None, m_read = Some False,
                     m_created_at = 9\<rparr>"

definition example_chat :: chat_state where
  "example_chat = \<lparr>chat_messages = [], newMessage = ''  on my arm '', selectedDoctor = Some example_doctor\<rparr>"

text \<open>The symptom finder as it is first shown.\<close>

definition example_finder :: finder_state where
  "example_finder = \<lparr>searchTerm = [], filteredSymptoms = symptomDatabase\<rparr>"

text \<open>The state in which the first user has just been given an identity.\<close>

definition fresh_db :: database where
  "fresh_db = \<lparr>auth_users = [1], profiles = [], user_roles = [], symptoms = [],
               doctor_notes = [], messages = [], patient_doctor_assignments = []\<rparr>"

section \<open>The role check\<close>

lemma filter_ne_Nil_iff: "(filter P xs \<noteq> []) = (\<exists>x\<in>set xs. P x)"
  by (simp add: filter_empty_conv)

text \<open>
  C3. \<open>has_role\<close> answers true exactly when \<open>user_roles\<close> holds a row with that identity and
  that role, and the answer is the same on the table cut down to the rows of that very pair:
  no other row, of this identity or of another, has a part in it.
\<close>

theorem has_role_iff_grant:
  "(has_role db (Some i) r \<longleftrightarrow> (\<exists>row\<in>set (user_roles db). ur_user_id row = i \<and> ur_role row = r))
   \<and> has_role db (Some i) r =
       has_role (db\<lparr>user_roles := filter (\<lambda>row. ur_user_id row = i \<and> ur_role row = r) (user_roles db)\<rparr>)
         (Some i) r"
  by (auto simp: has_role_def uid_is_def filter_ne_Nil_iff)

theorem has_role_iff_grant_witness:
  "has_role example_db (Some 2) role_doctor
   \<and> \<not> has_role example_db (Some 2) role_patient
   \<and> has_role (example_db\<lparr>user_roles := [\<lparr>ur_id = 11, ur_user_id = 2, ur_role = role_doctor\<rparr>]\<rparr>)
        (Some 2) role_doctor"
  using has_role_iff_grant [of example_db 2 role_doctor] has_role_iff_grant [of example_db 2 role_patient]
  by (simp add: has_role_def uid_is_def example_db_def)

section \<open>Doctor notes: who may insert\<close>

text \<open>
  C1 as the specification states it fails: a doctor whom no assignment links to the owner
  of the symptom inserts a note on it.
\<close>

theorem doctor_note_insert_unassigned_counterexample:
  "insert_doctor_note (remove_assignment example_db 1 2) (Some 2) example_note
     = Inr ((remove_assignment example_db 1 2)\<lparr>doctor_notes := [example_note]\<rparr>)
   \<and> patient_doctor_assignments (remove_assignment example_db 1 2) = []"
  by (simp add: insert_doctor_note_def doctors_can_insert_notes_def has_role_def uid_is_def
      progress_status_check_def remove_assignment_def example_db_def example_note_def)

text \<open>
  C1, amended. A note on a symptom of the table, with an admissible progress status and a
  fresh key, inserted by an identity \<open>d\<close> of \<open>auth.users\<close>: the insert succeeds and appends the
  row exactly when \<open>d\<close> holds the doctor role and the row names \<open>d\<close> as its doctor, whether or
  not an assignment links \<open>d\<close> to the owner of the symptom. Otherwise row level security
  refuses it and no table changes.
\<close>

theorem doctor_note_insert:
  assumes "s \<in> set (symptoms db)" and "n_symptom_id n = s_id s" and "d \<in> set (auth_users db)"
    and "progress_status_check (n_progress_status n)"
    and "n_id n \<notin> set (map n_id (doctor_notes db))"
  shows "insert_doctor_note db (Some d) n =
           (if has_role db (Some d) role_doctor \<and> n_doctor_id n = d
            then Inr (db\<lparr>doctor_notes := doctor_notes db @ [n]\<rparr>)
            else Inl RlsViolation)"
  using assms
  by (auto simp: insert_doctor_note_def doctors_can_insert_notes_def uid_is_def)

theorem doctor_note_insert_witness:
  "insert_doctor_note example_db (Some 2) example_note
     = Inr (example_db\<lparr>doctor_notes := [example_note]\<rparr>)
   \<and> insert_doctor_note example_db (Some 1) example_note = Inl RlsViolation"
proof -
  have s: "hd (symptoms example_db) \<in> set (symptoms example_db)"
    by (simp add: example_db_def)
  have k: "n_symptom_id example_note = s_id (hd (symptoms example_db))"
    by (simp add: example_db_def example_note_def)
  have c: "progress_status_check (n_progress_status example_note)"
    by (simp add: progress_status_check_def example_note_def)
  have f: "n_id example_note \<notin> set (map n_id (doctor_notes example_db))"
    by (simp add: example_db_def)
  have u2: "2 \<in> set (auth_users example_db)" and u1: "1 \<in> set (auth_users example_db)"
    by (simp_all add: example_db_def)
  have r2: "has_role example_db (Some 2) role_doctor" and n2: "n_doctor_id example_note = 2"
    by (simp_all add: has_role_def uid_is_def example_db_def example_note_def)
  have e: "doctor_notes example_db = []"
    by (simp add: example_db_def)
  show ?thesis
    using doctor_note_insert [OF s k u2 c f] doctor_note_insert [OF s k u1 c f] r2 n2 e
    by simp
qed

section \<open>Symptoms: who may read and write\<close>

text \<open>
  C2 as the specification states it fails for the owner of the row: an identity with the
  doctor role records a symptom of its own, and selects it with no assignment that names
  it as doctor of itself.
\<close>

theorem symptoms_select_owner_counterexample:
  "insert_symptom example_db (Some 2) doctors_own_symptom = Inr doctor_owner_db
   \<and> has_role doctor_owner_db (Some 2) role_doctor
   \<and> s_patient_id doctors_own_symptom = 2
   \<and> filter (\<lambda>a. a_patient_id a = 2 \<and> a_doctor_id a = 2)
         (patient_doctor_assignments doctor_owner_db) = []
   \<and> symptoms_select doctor_owner_db (Some 2) doctors_own_symptom"
  by (simp add: insert_symptom_def patients_can_insert_their_own_symptoms_def severity_check_def
      symptoms_select_def patients_can_view_their_own_symptoms_def has_role_def uid_is_def
      doctor_owner_db_def doctors_own_symptom_def example_db_def)

text \<open>
  C2, amended. The policy "Doctors can view assigned patients' symptoms" admits \<open>d\<close>
  exactly when \<open>d\<close> holds the doctor role and an assignment links the owner of the row to
  \<open>d\<close>; for an identity other than the owner the whole select predicate admits \<open>d\<close> under the
  same condition; and once the assignment of patient \<open>p\<close> to \<open>d\<close> is removed, a select by
  \<open>d\<close> returns no row owned by \<open>p\<close>.
\<close>

theorem doctor_symptoms_select:
  "(doctors_can_view_assigned_patients_symptoms db (Some d) s \<longleftrightarrow>
      has_role db (Some d) role_doctor \<and>
      (\<exists>a\<in>set (patient_doctor_assignments db). a_patient_id a = s_patient_id s \<and> a_doctor_id a = d))
   \<and> (d \<noteq> s_patient_id s \<longrightarrow>
        (symptoms_select db (Some d) s \<longleftrightarrow>
           has_role db (Some d) role_doctor \<and>
           (\<exists>a\<in>set (patient_doctor_assignments db). a_patient_id a = s_patient_id s \<and> a_doctor_id a = d)))
   \<and> (d \<noteq> p \<longrightarrow>
        filter (\<lambda>s. s_patient_id s = p) (select_symptoms (remove_assignment db p d) (Some d)) = [])"
  by (auto simp: symptoms_select_def doctors_can_view_assigned_patients_symptoms_def
      patients_can_view_their_own_symptoms_def select_symptoms_def remove_assignment_def
      uid_is_def filter_ne_Nil_iff filter_empty_conv)

theorem doctor_symptoms_select_witness:
  "(2::nat) \<noteq> s_patient_id (hd (symptoms example_db))
   \<and> symptoms_select example_db (Some 2) (hd (symptoms example_db))
   \<and> select_symptoms example_db (Some 2) = symptoms example_db
   \<and> select_symptoms (remove_assignment example_db 1 2) (Some 2) = []"
  using doctor_symptoms_select [of example_db 2 "hd (symptoms example_db)" 1]
  by (simp add: select_symptoms_def symptoms_select_def doctors_can_view_assigned_patients_symptoms_def
      patients_can_view_their_own_symptoms_def has_role_def uid_is_def remove_assignment_def example_db_def)

text \<open>
  C4 as the specification states it fails: identity 2 owns a symptom, holds the doctor
  role and is assigned to patient 1, and selects the symptom of patient 1.
\<close>

theorem symptoms_other_owner_counterexample:
  "symptoms_select doctor_owner_db (Some 2) (hd (symptoms doctor_owner_db))
   \<and> s_patient_id (hd (symptoms doctor_owner_db)) = 1
   \<and> s_patient_id (hd (tl (symptoms doctor_owner_db))) = 2
   \<and> has_role doctor_owner_db (Some 2) role_doctor"
  by (simp add: symptoms_select_def doctors_can_view_assigned_patients_symptoms_def
      patients_can_view_their_own_symptoms_def has_role_def uid_is_def
      doctor_owner_db_def doctors_own_symptom_def example_db_def)

text \<open>
  C4, amended. The owner of a symptom passes the select, update and delete predicates
  whatever roles the owner holds. An identity that is not the owner fails the update and
  delete predicates whatever roles it holds, and passes the select predicate exactly when
  it holds the doctor role and an assignment links the owner to it.
\<close>

theorem symptoms_owner_access:
  "(s_patient_id s = p \<longrightarrow>
      symptoms_select db (Some p) s \<and> patients_can_update_their_own_symptoms (Some p) s \<and> patients_can_delete_their_own_symptoms (Some p) s)
   \<and> (s_patient_id s \<noteq> p \<longrightarrow>
      \<not> patients_can_update_their_own_symptoms (Some p) s \<and> \<not> patients_can_delete_their_own_symptoms (Some p) s \<and>
      (symptoms_select db (Some p) s \<longleftrightarrow>
         has_role db (Some p) role_doctor \<and>
         (\<exists>a\<in>set (patient_doctor_assignments db). a_patient_id a = s_patient_id s \<and> a_doctor_id a = p)))"
  by (auto simp: symptoms_select_def doctors_can_view_assigned_patients_symptoms_def
      patients_can_view_their_own_symptoms_def patients_can_update_their_own_symptoms_def patients_can_delete_their_own_symptoms_def
      uid_is_def filter_ne_Nil_iff)

theorem symptoms_owner_access_witness:
  "s_patient_id (hd (symptoms example_db)) = 1
   \<and> symptoms_select example_db (Some 1) (hd (symptoms example_db))
   \<and> patients_can_update_their_own_symptoms (Some 1) (hd (symptoms example_db))
   \<and> patients_can_delete_their_own_symptoms (Some 1) (hd (symptoms example_db))
   \<and> s_patient_id (hd (symptoms example_db)) \<noteq> 3
   \<and> \<not> symptoms_select example_db (Some 3) (hd (symptoms example_db))
   \<and> \<not> patients_can_update_their_own_symptoms (Some 3) (hd (symptoms example_db))
   \<and> \<not> patients_can_delete_their_own_symptoms (Some 3) (hd (symptoms example_db))"
  using symptoms_owner_access [of "hd (symptoms example_db)" 1 example_db]
    symptoms_owner_access [of "hd (symptoms example_db)" 3 example_db]
  by (simp add: has_role_def uid_is_def example_db_def)

section \<open>Messages: who may read and update\<close>

text \<open>
  C5. A select on \<open>messages\<close> by \<open>u\<close> returns exactly the rows of the table, in its order,
  that name \<open>u\<close> as sender or as receiver. For rows \<open>conv\<close> none of which names \<open>t\<close> as sender
  or receiver, a select by \<open>t\<close> returns none of them.
\<close>

theorem message_select:
  "select_messages db (Some u) = filter (\<lambda>m. m_sender_id m = u \<or> m_receiver_id m = u) (messages db)
   \<and> ((\<forall>m\<in>set conv. m_sender_id m \<noteq> t \<and> m_receiver_id m \<noteq> t) \<longrightarrow>
        filter (\<lambda>m. m \<in> set conv) (select_messages db (Some t)) = [])"
proof -
  have p: "users_can_view_their_own_messages (Some v) =
             (\<lambda>m. m_sender_id m = v \<or> m_receiver_id m = v)" for v
    by (auto simp: fun_eq_iff users_can_view_their_own_messages_def uid_is_def)
  show ?thesis
    by (auto simp: select_messages_def p filter_empty_conv)
qed

theorem message_select_witness:
  "select_messages example_db (Some 1) = messages example_db
   \<and> select_messages example_db (Some 2) = messages example_db
   \<and> length (messages example_db) = 1
   \<and> m_sender_id (hd (messages example_db)) \<noteq> 3
   \<and> m_receiver_id (hd (messages example_db)) \<noteq> 3
   \<and> filter (\<lambda>m. m \<in> set (messages example_db)) (select_messages example_db (Some 3)) = []"
proof -
  have h: "\<forall>m\<in>set (messages example_db). m_sender_id m \<noteq> 3 \<and> m_receiver_id m \<noteq> 3"
    by (simp add: example_db_def)
  show ?thesis
    using h message_select [of example_db 1 "messages example_db" 3]
      message_select [of example_db 2 "messages example_db" 3]
    by (simp add: example_db_def)
qed

lemma update_target_Some:
  "update_target (Some u) wh m \<longleftrightarrow> wh m \<and> m_receiver_id m = u"
  by (auto simp: update_target_def users_can_view_their_own_messages_def
      users_can_update_their_received_messages_def uid_is_def)

lemma update_rows_Inr:
  "update_rows (Some u) wh f done ms = Inr ms' \<Longrightarrow>
     ms' = done @ map (\<lambda>m. if wh m \<and> m_receiver_id m = u then f m else m) ms \<and>
     (\<forall>m\<in>set ms. wh m \<and> m_receiver_id m = u \<longrightarrow> m_receiver_id (f m) = u)"
proof (induction ms arbitrary: "done")
  case Nil
  then show ?case by simp
next
  case (Cons m ms)
  show ?case
  proof (cases "wh m \<and> m_receiver_id m = u")
    case True
    with Cons.prems have keep: "m_receiver_id (f m) = u"
      and rest: "update_rows (Some u) wh f (done @ [f m]) ms = Inr ms'"
      by (auto simp: update_target_Some users_can_update_their_received_messages_def uid_is_def
          split: if_splits)
    from Cons.IH [OF rest] True keep show ?thesis by simp
  next
    case False
    then have nt: "\<not> update_target (Some u) wh m"
      by (simp add: update_target_Some)
    with Cons.prems have rest: "update_rows (Some u) wh f (done @ [m]) ms = Inr ms'"
      by simp
    from Cons.IH [OF rest] False show ?thesis by auto
  qed
qed

text \<open>
  Rows whose rewriting keeps the receiver and the key are all accepted, on a table of
  distinct keys.
\<close>

lemma update_rows_accept:
  assumes "\<forall>m\<in>set ms. wh m \<and> m_receiver_id m = u \<longrightarrow>
             m_receiver_id (f m) = u \<and> m_id (f m) = m_id m"
    and "distinct (map m_id (done @ ms))"
  shows "update_rows (Some u) wh f done ms =
           Inr (done @ map (\<lambda>m. if wh m \<and> m_receiver_id m = u then f m else m) ms)"
  using assms
proof (induction ms arbitrary: "done")
  case Nil
  then show ?case by simp
next
  case (Cons m ms)
  show ?case
  proof (cases "wh m \<and> m_receiver_id m = u")
    case True
    with Cons.prems(1) have keep: "m_receiver_id (f m) = u" and key: "m_id (f m) = m_id m"
      by simp_all
    from Cons.prems(2) have fresh: "m_id m \<notin> set (map m_id (done @ ms))"
      by auto
    from Cons.prems(2) key have d: "distinct (map m_id ((done @ [f m]) @ ms))"
      by auto
    from Cons.prems(1) have r: "\<forall>m\<in>set ms. wh m \<and> m_receiver_id m = u \<longrightarrow>
             m_receiver_id (f m) = u \<and> m_id (f m) = m_id m"
      by simp
    from Cons.IH [OF r d] True keep key fresh show ?thesis
      by (simp add: update_target_Some users_can_update_their_received_messages_def uid_is_def)
  next
    case False
    from Cons.prems(2) have d: "distinct (map m_id ((done @ [m]) @ ms))"
      by auto
    from Cons.prems(1) have r: "\<forall>m\<in>set ms. wh m \<and> m_receiver_id m = u \<longrightarrow>
             m_receiver_id (f m) = u \<and> m_id (f m) = m_id m"
      by simp
    from False have nt: "\<not> update_target (Some u) wh m"
      by (simp add: update_target_Some)
    from Cons.IH [OF r d] False have "update_rows (Some u) wh f (done @ [m]) ms =
        Inr (done @ map (\<lambda>m. if wh m \<and> m_receiver_id m = u then f m else m) (m # ms))"
      by auto
    with nt show ?thesis
      by simp
  qed
qed

text \<open>
  C6 as the specification states it fails: the receiver of a message rewrites its content.
\<close>

theorem message_update_content_counterexample:
  "update_messages example_db (Some 2) (where_id 200) (set_content ''changed'')
     = Inr (example_db\<lparr>messages := [set_content ''changed'' (hd (messages example_db))]\<rparr>)
   \<and> m_receiver_id (hd (messages example_db)) = 2
   \<and> m_content (set_content ''changed'' (hd (messages example_db)))
       \<noteq> m_content (hd (messages example_db))"
  by (simp add: update_messages_def update_target_def messages_foreign_keys_def
      users_can_view_their_own_messages_def users_can_update_their_received_messages_def
      uid_is_def where_id_def set_content_def example_db_def)

text \<open>
  C6, amended. An update of \<open>messages\<close> by \<open>u\<close> that the database accepts rewrites the rows
  its WHERE clause selects among those that name \<open>u\<close> as receiver and no other row, and each
  rewritten row still names \<open>u\<close> as receiver. The policy sets no limit on the other columns:
  on a table of distinct keys, an update by \<open>u\<close> whose rewritten rows keep their receiver and
  their key and meet the foreign keys is accepted, whatever it does to the sender, the
  content, the attachment reference, the symptom reference, the read flag and the
  timestamp of creation.
\<close>

theorem message_update_receiver_only:
  "(update_messages db (Some u) wh f = Inr db' \<longrightarrow>
      db' = db\<lparr>messages := map (\<lambda>m. if wh m \<and> m_receiver_id m = u then f m else m) (messages db)\<rparr>
      \<and> (\<forall>m\<in>set (messages db). wh m \<and> m_receiver_id m = u \<longrightarrow> m_receiver_id (f m) = u))
   \<and> (distinct (map m_id (messages db)) \<and>
       (\<forall>m\<in>set (messages db). wh m \<and> m_receiver_id m = u \<longrightarrow>
          m_receiver_id (f m) = u \<and> m_id (f m) = m_id m \<and> messages_foreign_keys db (f m)) \<longrightarrow>
      update_messages db (Some u) wh f =
        Inr (db\<lparr>messages := map (\<lambda>m. if wh m \<and> m_receiver_id m = u then f m else m) (messages db)\<rparr>))"
proof (intro conjI impI)
  assume a: "update_messages db (Some u) wh f = Inr db'"
  then obtain ms' where r: "update_rows (Some u) wh f [] (messages db) = Inr ms'"
    and d: "db' = db\<lparr>messages := ms'\<rparr>"
    by (auto simp: update_messages_def split: sum.splits if_splits)
  from update_rows_Inr [OF r] d
  show "db' = db\<lparr>messages := map (\<lambda>m. if wh m \<and> m_receiver_id m = u then f m else m) (messages db)\<rparr>"
    by simp
  from update_rows_Inr [OF r]
  show "\<forall>m\<in>set (messages db). wh m \<and> m_receiver_id m = u \<longrightarrow> m_receiver_id (f m) = u"
    by simp
next
  assume h: "distinct (map m_id (messages db)) \<and>
       (\<forall>m\<in>set (messages db). wh m \<and> m_receiver_id m = u \<longrightarrow>
          m_receiver_id (f m) = u \<and> m_id (f m) = m_id m \<and> messages_foreign_keys db (f m))"
  then have k: "\<forall>m\<in>set (messages db). wh m \<and> m_receiver_id m = u \<longrightarrow>
             m_receiver_id (f m) = u \<and> m_id (f m) = m_id m"
    and d: "distinct (map m_id ([] @ messages db))"
    by simp_all
  from h have fk: "list_all (messages_foreign_keys db)
                     (map f (filter (update_target (Some u) wh) (messages db)))"
    by (simp add: list_all_iff update_target_Some)
  from update_rows_accept [OF k d] fk
  show "update_messages db (Some u) wh f =
        Inr (db\<lparr>messages := map (\<lambda>m. if wh m \<and> m_receiver_id m = u then f m else m) (messages db)\<rparr>)"
    by (simp add: update_messages_def)
qed

theorem message_update_receiver_only_witness:
  "update_messages example_db (Some 2) (where_id 200)
      (set_other_columns 3 ''changed'' (Some ''photo.png'') (Some 100) (Some True) 0)
     = Inr (example_db\<lparr>messages :=
         [\<lparr>m_id = 200, m_sender_id = 3, m_receiver_id = 2, m_content = ''changed'',
           m_attachment_url = Some ''photo.png'', m_symptom_reference = Some 100,
           m_read = Some True, m_created_at = 0\<rparr>]\<rparr>)
   \<and> messages example_db =
         [\<lparr>m_id = 200, m_sender_id = 1, m_receiver_id = 2, m_content = ''hello'',
           m_attachment_url = None, m_symptom_reference = None,
           m_read = Some False, m_created_at = 6\<rparr>]
   \<and> update_messages example_db (Some 2) (where_id 200) (set_read True)
     = Inr (example_db\<lparr>messages := [set_read True (hd (messages example_db))]\<rparr>)
   \<and> update_messages example_db (Some 1) (where_id 200) (set_read True) = Inr example_db
   \<and> m_receiver_id (set_read True (hd (messages example_db))) = 2"
proof -
  have k: "distinct (map m_id (messages example_db)) \<and>
       (\<forall>m\<in>set (messages example_db). where_id 200 m \<and> m_receiver_id m = 2 \<longrightarrow>
          m_receiver_id (set_other_columns 3 ''changed'' (Some ''photo.png'') (Some 100) (Some True) 0 m) = 2 \<and>
          m_id (set_other_columns 3 ''changed'' (Some ''photo.png'') (Some 100) (Some True) 0 m) = m_id m \<and>
          messages_foreign_keys example_db
            (set_other_columns 3 ''changed'' (Some ''photo.png'') (Some 100) (Some True) 0 m))"
    by (simp add: set_other_columns_def messages_foreign_keys_def example_db_def)
  have a: "update_messages example_db (Some 2) (where_id 200) (set_read True)
     = Inr (example_db\<lparr>messages := [set_read True (hd (messages example_db))]\<rparr>)"
    by (simp add: update_messages_def update_target_def messages_foreign_keys_def
      users_can_view_their_own_messages_def users_can_update_their_received_messages_def
      uid_is_def where_id_def set_read_def example_db_def)
  have b: "update_messages example_db (Some 1) (where_id 200) (set_read True) = Inr example_db"
    by (simp add: update_messages_def update_target_def messages_foreign_keys_def
      users_can_view_their_own_messages_def users_can_update_their_received_messages_def
      uid_is_def where_id_def set_read_def example_db_def)
  have e: "messages example_db =
         [\<lparr>m_id = 200, m_sender_id = 1, m_receiver_id = 2, m_content = ''hello'',
           m_attachment_url = None, m_symptom_reference = None,
           m_read = Some False, m_created_at = 6\<rparr>]"
    by (simp add: example_db_def)
  from k message_update_receiver_only [of example_db 2 "where_id 200"
      "set_other_columns 3 ''changed'' (Some ''photo.png'') (Some 100) (Some True) 0"]
  have c: "update_messages example_db (Some 2) (where_id 200)
      (set_other_columns 3 ''changed'' (Some ''photo.png'') (Some 100) (Some True) 0)
     = Inr (example_db\<lparr>messages := map (\<lambda>m. if where_id 200 m \<and> m_receiver_id m = 2
          then set_other_columns 3 ''changed'' (Some ''photo.png'') (Some 100) (Some True) 0 m
          else m) (messages example_db)\<rparr>)"
    by blast
  show ?thesis
    using a b c e
    by (simp add: where_id_def set_other_columns_def set_read_def)
qed

text \<open>
  The key is tested row by row: an update that gives the one message the key of another
  row is refused, and so is one that swaps the keys of two rows.
\<close>

lemma update_key_swap_refused:
  "update_messages (example_db\<lparr>messages := messages example_db @ [example_reply\<lparr>m_receiver_id := 2\<rparr>]\<rparr>)
     (Some 2) (\<lambda>m. True) (\<lambda>m. m\<lparr>m_id := (if m_id m = 200 then 201 else 200)\<rparr>)
   = Inl UniqueViolation
   \<and> update_messages (example_db\<lparr>messages := messages example_db @ [example_reply]\<rparr>)
     (Some 2) (where_id 200) (set_id 201)
   = Inl UniqueViolation"
  by (simp add: update_messages_def update_target_def where_id_def set_id_def
      users_can_view_their_own_messages_def users_can_update_their_received_messages_def
      uid_is_def example_reply_def example_db_def)

section \<open>Signup: the role grant\<close>

text \<open>No client inserts a role, so no signup changes \<open>user_roles\<close>.\<close>

lemma insert_user_role_refused: "insert_user_role db uid r = Inl RlsViolation"
  by (simp add: insert_user_role_def user_roles_insert_def)

lemma signup_leaves_user_roles:
  "user_roles (handleAuth_signup db user fullName role new_id now) = user_roles db"
  by (simp add: handleAuth_signup_def Let_def insert_user_role_refused insert_profile_def
      split: sum.splits)

text \<open>
  C7. The signup of a patient on the fresh state: the profile row is inserted, the insert
  into \<open>user_roles\<close> is refused by row level security, and the new identity holds no role
  afterwards.
\<close>

theorem signup_role_grant_refused:
  "insert_user_role
      (fresh_db\<lparr>profiles := [\<lparr>p_id = 1, p_full_name = ''Ann'', p_role = role_patient,
                               p_created_at = 5, p_updated_at = 5\<rparr>]\<rparr>)
      (Some 1) \<lparr>ur_id = 10, ur_user_id = 1, ur_role = role_patient\<rparr> = Inl RlsViolation
   \<and> handleAuth_signup fresh_db 1 ''Ann'' role_patient 10 5
       = fresh_db\<lparr>profiles := [\<lparr>p_id = 1, p_full_name = ''Ann'', p_role = role_patient,
                                 p_created_at = 5, p_updated_at = 5\<rparr>]\<rparr>
   \<and> user_roles (handleAuth_signup fresh_db 1 ''Ann'' role_patient 10 5) = []
   \<and> \<not> has_role (handleAuth_signup fresh_db 1 ''Ann'' role_patient 10 5) (Some 1) role_patient"
  by (simp add: handleAuth_signup_def insert_profile_def insert_user_role_def
      user_roles_insert_def users_can_insert_their_own_profile_def uid_is_def has_role_def
      fresh_db_def)

section \<open>The chat view: events of the feed\<close>

lemma on_insert_Some:
  "on_insert (Some u) (Some d) prev m =
     (if (m_sender_id m = u \<and> m_receiver_id m = d_id d) \<or>
         (m_sender_id m = d_id d \<and> m_receiver_id m = u)
      then prev @ [m] else prev)"
  by (simp add: on_insert_def)

text \<open>
  C9. With user \<open>u\<close> and selected doctor \<open>d\<close>, the callback appends the row of an event
  exactly when the row goes from \<open>u\<close> to \<open>d\<close> or from \<open>d\<close> to \<open>u\<close>, and leaves the list alone
  otherwise. A run of events therefore appends every matching row in the order of
  delivery, as often as it is delivered: nothing compares identifiers.
\<close>

theorem deliver_appends_matching:
  "deliver (Some u) (Some d) prev events =
     prev @ filter (\<lambda>m. (m_sender_id m = u \<and> m_receiver_id m = d_id d) \<or>
                         (m_sender_id m = d_id d \<and> m_receiver_id m = u)) events
   \<and> (on_insert (Some u) (Some d) prev m = prev @ [m] \<longleftrightarrow>
        (m_sender_id m = u \<and> m_receiver_id m = d_id d) \<or>
        (m_sender_id m = d_id d \<and> m_receiver_id m = u))
   \<and> (on_insert (Some u) (Some d) prev m \<noteq> prev @ [m] \<longrightarrow> on_insert (Some u) (Some d) prev m = prev)"
proof -
  have "foldl (on_insert (Some u) (Some d)) prev events =
     prev @ filter (\<lambda>m. (m_sender_id m = u \<and> m_receiver_id m = d_id d) \<or>
                         (m_sender_id m = d_id d \<and> m_receiver_id m = u)) events"
    by (induction events arbitrary: prev) (simp_all add: on_insert_Some)
  then show ?thesis
    by (simp add: deliver_def on_insert_Some)
qed

theorem deliver_appends_matching_witness:
  "deliver (Some 1) (Some example_doctor) [hd (messages example_db)]
      [example_reply, example_other, example_reply]
     = [hd (messages example_db), example_reply, example_reply]
   \<and> on_insert (Some 1) (Some example_doctor) [example_reply] example_reply
       = [example_reply, example_reply]
   \<and> on_insert (Some 1) (Some example_doctor) [example_reply] example_other = [example_reply]"
  using deliver_appends_matching [of 1 example_doctor "[hd (messages example_db)]"
      "[example_reply, example_other, example_reply]" example_reply]
    deliver_appends_matching [of 1 example_doctor "[example_reply]" "[]" example_reply]
    deliver_appends_matching [of 1 example_doctor "[example_reply]" "[]" example_other]
  by (simp add: example_doctor_def example_reply_def example_other_def example_db_def)

section \<open>The chat view: sending\<close>

text \<open>
  C10. \<open>handleSend\<close> changes the database only by appending one message whose content is
  the trimmed input, and only when the trimmed input is not empty and a doctor is
  selected; every row it adds has content that is not empty. With an empty trimmed input,
  or with no doctor selected, it returns the view and the database as they were.
\<close>

theorem handleSend_content:
  assumes "handleSend user new_id now st db = (st', db', err)"
  shows "(db' = db \<or>
          (\<exists>doc u. selectedDoctor st = Some doc \<and> user = Some u \<and> trim (newMessage st) \<noteq> [] \<and>
             db' = db\<lparr>messages := messages db @
                      [\<lparr>m_id = new_id, m_sender_id = u, m_receiver_id = d_id doc,
                        m_content = trim (newMessage st), m_attachment_url = None,
                        m_symptom_reference = None, m_read = Some False,
                        m_created_at = now\<rparr>]\<rparr>))
         \<and> (\<forall>m\<in>set (messages db'). m \<in> set (messages db) \<or>
               (m_content m = trim (newMessage st) \<and> m_content m \<noteq> []))
         \<and> (trim (newMessage st) = [] \<longrightarrow> db' = db \<and> st' = st \<and> err = None)
         \<and> (selectedDoctor st = None \<longrightarrow> db' = db \<and> st' = st \<and> err = None)"
  using assms
  by (auto simp: handleSend_def insert_message_def split: if_splits option.splits sum.splits)

theorem handleSend_content_witness:
  "handleSend (Some 1) 203 9 example_chat example_db
     = (example_chat\<lparr>newMessage := []\<rparr>,
        example_db\<lparr>messages := messages example_db @
           [\<lparr>m_id = 203, m_sender_id = 1, m_receiver_id = 2, m_content = ''on my arm'',
             m_attachment_url = None, m_symptom_reference = None, m_read = Some False,
             m_created_at = 9\<rparr>]\<rparr>,
        None)
   \<and> handleSend (Some 1) 203 9 (example_chat\<lparr>newMessage := ''   ''\<rparr>) example_db
     = (example_chat\<lparr>newMessage := ''   ''\<rparr>, example_db, None)"
proof -
  have a: "handleSend (Some 1) 203 9 example_chat example_db
     = (example_chat\<lparr>newMessage := []\<rparr>,
        example_db\<lparr>messages := messages example_db @
           [\<lparr>m_id = 203, m_sender_id = 1, m_receiver_id = 2, m_content = ''on my arm'',
             m_attachment_url = None, m_symptom_reference = None, m_read = Some False,
             m_created_at = 9\<rparr>]\<rparr>,
        None)"
    by (simp add: handleSend_def insert_message_def messages_foreign_keys_def
        users_can_send_messages_def uid_is_def trim_def is_white_space_def
        example_chat_def example_doctor_def example_db_def)
  have b: "handleSend (Some 1) 203 9 (example_chat\<lparr>newMessage := ''   ''\<rparr>) example_db
     = (example_chat\<lparr>newMessage := ''   ''\<rparr>, example_db, None)"
    by (simp add: handleSend_def trim_def is_white_space_def example_chat_def)
  show ?thesis
    using a b handleSend_content [OF a] handleSend_content [OF b]
    by simp
qed

section \<open>The symptom finder\<close>

text \<open>
  \<open>includes\<close> on the lower-cased strings is the case-insensitive substring test of the
  specification, and a trimmed query is empty exactly when every unit of the query is
  white space.
\<close>

lemma includes_js_iff: "includes_js s t \<longleftrightarrow> (\<exists>pre post. s = pre @ t @ post)"
proof
  assume "includes_js s t"
  then obtain k where k: "take (length t) (drop k s) = t"
    unfolding includes_js_def list_ex_iff by blast
  have "s = take k s @ t @ drop (length t) (drop k s)"
    by (metis k append_take_drop_id)
  then show "\<exists>pre post. s = pre @ t @ post"
    by blast
next
  assume "\<exists>pre post. s = pre @ t @ post"
  then obtain pre post where s: "s = pre @ t @ post"
    by blast
  have len: "length t \<le> length s"
    by (simp add: s)
  have mem: "length pre \<in> set [0 ..< length s - length t + 1]"
    by (simp add: s)
  have "take (length t) (drop (length pre) s) = t"
    by (simp add: s)
  with mem have "\<exists>k\<in>set [0 ..< length s - length t + 1]. take (length t) (drop k s) = t"
    by blast
  with len show "includes_js s t"
    unfolding includes_js_def list_ex_iff by blast
qed

lemma same_ignoring_case_iff: "same_ignoring_case a b \<longleftrightarrow> toLowerCase a = toLowerCase b"
proof -
  have "list_all2 (\<lambda>x y. toLowerCase_unit x = toLowerCase_unit y) a b
          = list_all2 (=) (map toLowerCase_unit a) (map toLowerCase_unit b)"
    by (simp add: list_all2_map1 list_all2_map2)
  then show ?thesis
    by (simp add: same_ignoring_case_def toLowerCase_def list.rel_eq)
qed

lemma includes_lower_iff:
  "includes_js (toLowerCase s) (toLowerCase q) \<longleftrightarrow> case_insensitive_substring q s"
proof
  assume "includes_js (toLowerCase s) (toLowerCase q)"
  then obtain pre' post' where "map toLowerCase_unit s = pre' @ toLowerCase q @ post'"
    by (auto simp: includes_js_iff toLowerCase_def)
  then have "\<exists>us vs. s = us @ vs \<and> pre' = map toLowerCase_unit us \<and>
                 toLowerCase q @ post' = map toLowerCase_unit vs"
    by (simp add: map_eq_append_conv)
  then obtain pre rest where s1: "s = pre @ rest"
    and r: "toLowerCase q @ post' = map toLowerCase_unit rest"
    by blast
  from r have "\<exists>us vs. rest = us @ vs \<and> toLowerCase q = map toLowerCase_unit us \<and>
                 post' = map toLowerCase_unit vs"
    by (simp add: append_eq_map_conv)
  then obtain mid post where s2: "rest = mid @ post"
    and m: "map toLowerCase_unit mid = toLowerCase q"
    by metis
  from m have "same_ignoring_case mid q"
    by (simp add: same_ignoring_case_iff toLowerCase_def)
  with s1 s2 show "case_insensitive_substring q s"
    unfolding case_insensitive_substring_def by blast
next
  assume "case_insensitive_substring q s"
  then obtain pre mid post where s: "s = pre @ mid @ post" and m: "toLowerCase mid = toLowerCase q"
    by (auto simp: case_insensitive_substring_def same_ignoring_case_iff)
  have "toLowerCase s = toLowerCase pre @ toLowerCase q @ toLowerCase post"
    using m by (simp add: s toLowerCase_def)
  then show "includes_js (toLowerCase s) (toLowerCase q)"
    unfolding includes_js_iff by blast
qed

lemma itchy_eval:
  "filter (\<lambda>symptom.
       includes_js (toLowerCase (si_name symptom)) (toLowerCase ''itchy'') \<or>
       includes_js (toLowerCase (si_description symptom)) (toLowerCase ''itchy'') \<or>
       list_ex (\<lambda>keyword. includes_js (toLowerCase keyword) (toLowerCase ''itchy'')) (si_keywords symptom))
     symptomDatabase = [symptomDatabase ! 0]"
  by code_simp

lemma rash_eval:
  "filter (\<lambda>symptom.
       includes_js (toLowerCase (si_name symptom)) (toLowerCase ''RASH'') \<or>
       includes_js (toLowerCase (si_description symptom)) (toLowerCase ''RASH'') \<or>
       list_ex (\<lambda>keyword. includes_js (toLowerCase keyword) (toLowerCase ''RASH'')) (si_keywords symptom))
     symptomDatabase = [symptomDatabase ! 0]"
  by code_simp

lemma itchy_keyword_entries:
  "filter (\<lambda>e. ''itchy'' \<in> set (si_keywords e)) symptomDatabase = [symptomDatabase ! 0]"
  by code_simp

lemma trim_not_blank: "trim ''itchy'' \<noteq> []" "trim ''RASH'' \<noteq> []"
  by (simp_all add: trim_def is_white_space_def)

lemma trim_blank_iff: "trim q = [] \<longleftrightarrow> (\<forall>c\<in>set q. is_white_space c)"
proof
  assume "trim q = []"
  then have all: "\<forall>c\<in>set (dropWhile is_white_space q). is_white_space c"
    by (simp add: trim_def)
  have "dropWhile is_white_space q = []"
  proof (rule ccontr)
    assume ne: "dropWhile is_white_space q \<noteq> []"
    then have "\<not> is_white_space (hd (dropWhile is_white_space q))"
      by (rule hd_dropWhile)
    moreover from ne have "hd (dropWhile is_white_space q) \<in> set (dropWhile is_white_space q)"
      by simp
    ultimately show False using all by blast
  qed
  then show "\<forall>c\<in>set q. is_white_space c"
    by simp
next
  assume "\<forall>c\<in>set q. is_white_space c"
  then show "trim q = []"
    by (auto simp: trim_def dest: set_dropWhileD)
qed

lemma symptomDatabase_facts:
  "length symptomDatabase = 8" "si_name (symptomDatabase ! 0) = ''Rash''"
  by (simp_all add: symptomDatabase_def)

text \<open>
  C8. On the reference list of eight entries, \<open>handleSearch\<close> shows the whole list, in
  order, for a query that is empty or all white space. For any other query it shows
  exactly the entries, in order, whose name, description or some keyword has the query as
  a case-insensitive substring. The query "itchy" gives exactly the entries with the
  keyword "itchy", and the query "RASH" gives the entry named "Rash".
\<close>

theorem handleSearch_filter:
  "(trim q = [] \<longrightarrow> filteredSymptoms (handleSearch q st) = symptomDatabase)
   \<and> (trim q \<noteq> [] \<longrightarrow>
        filteredSymptoms (handleSearch q st) =
          filter (\<lambda>e. case_insensitive_substring q (si_name e) \<or>
                      case_insensitive_substring q (si_description e) \<or>
                      (\<exists>k\<in>set (si_keywords e). case_insensitive_substring q k))
            symptomDatabase)
   \<and> (trim q = [] \<longleftrightarrow> (\<forall>c\<in>set q. is_white_space c))
   \<and> searchTerm (handleSearch q st) = q
   \<and> length symptomDatabase = 8
   \<and> filteredSymptoms (handleSearch ''itchy'' st)
       = filter (\<lambda>e. ''itchy'' \<in> set (si_keywords e)) symptomDatabase
   \<and> filteredSymptoms (handleSearch ''RASH'' st) = [symptomDatabase ! 0]
   \<and> si_name (symptomDatabase ! 0) = ''Rash''"
proof -
  have blank: "trim q = [] \<longrightarrow> filteredSymptoms (handleSearch q st) = symptomDatabase"
    by (simp add: handleSearch_def)
  have general: "trim q \<noteq> [] \<longrightarrow>
        filteredSymptoms (handleSearch q st) =
          filter (\<lambda>e. case_insensitive_substring q (si_name e) \<or>
                      case_insensitive_substring q (si_description e) \<or>
                      (\<exists>k\<in>set (si_keywords e). case_insensitive_substring q k))
            symptomDatabase"
    by (simp add: handleSearch_def Let_def includes_lower_iff list_ex_iff)
  have typed: "searchTerm (handleSearch q st) = q"
    by (simp add: handleSearch_def Let_def)
  have itchy: "filteredSymptoms (handleSearch ''itchy'' st)
       = filter (\<lambda>e. ''itchy'' \<in> set (si_keywords e)) symptomDatabase"
    using trim_not_blank(1)
    by (simp add: handleSearch_def Let_def itchy_eval itchy_keyword_entries)
  have rash: "filteredSymptoms (handleSearch ''RASH'' st) = [symptomDatabase ! 0]"
    using trim_not_blank(2)
    by (simp add: handleSearch_def Let_def rash_eval)
  show ?thesis
    using blank general typed itchy rash trim_blank_iff [of q] symptomDatabase_facts
    by blast
qed

theorem handleSearch_filter_witness:
  "trim ''  '' = []
   \<and> filteredSymptoms (handleSearch ''  '' example_finder) = symptomDatabase
   \<and> trim ''itchy'' \<noteq> []
   \<and> filteredSymptoms (handleSearch ''itchy'' example_finder) = [symptomDatabase ! 0]"
proof -
  have a: "trim ''  '' = []"
    by (simp add: trim_def is_white_space_def)
  have b: "trim ''itchy'' \<noteq> []"
    by (simp add: trim_def is_white_space_def)
  show ?thesis
    using a b handleSearch_filter [of "''  ''" example_finder]
      handleSearch_filter [of "''itchy''" example_finder] itchy_keyword_entries
    by simp
qed

end
